theory Spec2Isabelle
  imports Main
begin

section \<open>JavaScript values\<close>

text \<open>
  Model attribute values are untyped in the source: the handlers compare them with
  \<^verbatim>\<open>null\<close>, use them as conditions and read the properties \<^verbatim>\<open>data\<close> and
  \<^verbatim>\<open>width\<close> of them. An object is the list of its own properties in insertion order.
  Numbers are the integer-valued ones (no NaN, no fractions).
\<close>

datatype jsval =
    JUndefined
  | JNull
  | JBool bool
  | JNum int
  | JStr string
  | JObj "(string \<times> jsval) list"

datatype js_error = TypeError

text \<open>What \<^verbatim>\<open>if ( v )\<close> and \<^verbatim>\<open>v || w\<close> test.\<close>

fun truthy :: "jsval \<Rightarrow> bool" where
  "truthy JUndefined = False"
| "truthy JNull = False"
| "truthy (JBool b) = b"
| "truthy (JNum n) = (n \<noteq> 0)"
| "truthy (JStr s) = (s \<noteq> [])"
| "truthy (JObj fs) = True"

definition js_or :: "jsval \<Rightarrow> jsval \<Rightarrow> jsval" where
  "js_or v w = (if truthy v then v else w)"

text \<open>
  The member access \<^verbatim>\<open>v.k\<close>, for the keys the source reads (\<^verbatim>\<open>data\<close>,
  \<^verbatim>\<open>width\<close>): a TypeError on \<^verbatim>\<open>null\<close> and \<^verbatim>\<open>undefined\<close>, the property or
  \<^verbatim>\<open>undefined\<close> on an object, \<^verbatim>\<open>undefined\<close> on the other primitives.
\<close>

fun getProp :: "jsval \<Rightarrow> string \<Rightarrow> js_error + jsval" where
  "getProp JUndefined k = Inl TypeError"
| "getProp JNull k = Inl TypeError"
| "getProp (JObj fs) k = Inr (case map_of fs k of None \<Rightarrow> JUndefined | Some v \<Rightarrow> v)"
| "getProp v k = Inr JUndefined"

text \<open>An object has a field when the key is one of its own properties.\<close>

fun hasField :: "jsval \<Rightarrow> string \<Rightarrow> bool" where
  "hasField (JObj fs) k = (map_of fs k \<noteq> None)"
| "hasField v k = False"

text \<open>
  The string form of a value, \<^verbatim>\<open>String( v )\<close>: what a view attribute holds when it is
  set to \<open>v\<close>. A number prints as a decimal integer (as \<^verbatim>\<open>String\<close> prints the
  integers below 10^21), a plain object as \<^verbatim>\<open>[object Object]\<close>.
\<close>

definition digit_char :: "nat \<Rightarrow> char" where
  "digit_char n = ''0123456789'' ! (n mod 10)"

fun show_nat :: "nat \<Rightarrow> string" where
  "show_nat n = (if n < 10 then [digit_char n] else show_nat (n div 10) @ [digit_char n])"

definition show_int :: "int \<Rightarrow> string" where
  "show_int i = (if i < 0 then ''-'' @ show_nat (nat (- i)) else show_nat (nat i))"

fun js_toString :: "jsval \<Rightarrow> string" where
  "js_toString JUndefined = ''undefined''"
| "js_toString JNull = ''null''"
| "js_toString (JBool b) = (if b then ''true'' else ''false'')"
| "js_toString (JNum n) = show_int n"
| "js_toString (JStr s) = s"
| "js_toString (JObj fs) = ''[object Object]''"

section \<open>View and model trees\<close>

text \<open>
  Nodes are objects with identity that the writer mutates in place, so both trees are
  stores from node identities to nodes; children are identities. The value of a view
  attribute is a string; the value of a model attribute is any value.
\<close>

type_synonym node_id = nat

record view_element =
  el_name :: string
  el_attrs :: "string \<rightharpoonup> string"
  el_children :: "node_id list"
  el_classes :: "string list"

datatype view_node = Element view_element | Text string

type_synonym view_tree = "node_id \<rightharpoonup> view_node"

record model_element =
  me_type :: string
  me_attrs :: "string \<rightharpoonup> jsval"
  me_children :: "node_id list"

datatype model_node = ModelElement model_element | ModelText string

type_synonym model_tree = "node_id \<rightharpoonup> model_node"

definition hasAttribute :: "view_element \<Rightarrow> string \<Rightarrow> bool" where
  "hasAttribute e k = (el_attrs e k \<noteq> None)"

definition getAttribute :: "view_element \<Rightarrow> string \<Rightarrow> jsval" where
  "getAttribute e k = (case el_attrs e k of None \<Rightarrow> JUndefined | Some v \<Rightarrow> JStr v)"

section \<open>Consumable gate\<close>

text \<open>
  Modelled from the spec: the consumable object (\<^verbatim>\<open>conversionApi.consumable\<close>) belongs to
  the conversion engine, whose code is not in this file. Per node and feature the gate
  holds \<open>Some True\<close> (still available), \<open>Some False\<close> (consumed) or \<open>None\<close> (never
  added). \<open>consumable_test\<close> is the spec's non-destructive check that all listed
  features are still unconsumed, false when one is missing or consumed;
  \<open>consumable_consume\<close> marks all listed features consumed and returns true, or
  returns false and changes nothing.
\<close>

type_synonym ('n, 'f) consumable = "'n \<times> 'f \<Rightarrow> bool option"

definition consumable_test :: "('n, 'f) consumable \<Rightarrow> 'n \<Rightarrow> 'f list \<Rightarrow> bool" where
  "consumable_test c n fs = list_all (\<lambda>f. c (n, f) = Some True) fs"

definition mark_consumed :: "'n \<Rightarrow> 'f \<Rightarrow> ('n, 'f) consumable \<Rightarrow> ('n, 'f) consumable" where
  "mark_consumed n f c = c((n, f) \<mapsto> False)"

definition consumable_consume ::
  "('n, 'f) consumable \<Rightarrow> 'n \<Rightarrow> 'f list \<Rightarrow> bool \<times> ('n, 'f) consumable" where
  "consumable_consume c n fs =
     (if consumable_test c n fs then (True, fold (mark_consumed n) fs c) else (False, c))"

text \<open>The features of a view node that the element converter names.\<close>

datatype feature = Name | Classes string | Attribute string

section \<open>Widget image locator\<close>

text \<open>
  Modelled from the spec: \<^verbatim>\<open>getViewImgFromWidget\<close> is imported from \<^verbatim>\<open>./utils\<close>, which
  is not among the source files. If the element is itself an \<^verbatim>\<open>img\<close> it is returned;
  otherwise the first \<^verbatim>\<open>img\<close> element among its children and their children, in
  document order (the depth bound of the shallow wrapper), or nothing.
\<close>

definition is_img :: "view_tree \<Rightarrow> node_id \<Rightarrow> bool" where
  "is_img vt i = (case vt i of Some (Element e) \<Rightarrow> el_name e = ''img'' | _ \<Rightarrow> False)"

definition children_of :: "view_tree \<Rightarrow> node_id \<Rightarrow> node_id list" where
  "children_of vt i = (case vt i of Some (Element e) \<Rightarrow> el_children e | _ \<Rightarrow> [])"

definition getViewImgFromWidget :: "view_tree \<Rightarrow> node_id \<Rightarrow> node_id option" where
  "getViewImgFromWidget vt i =
     (if is_img vt i then Some i
      else find (is_img vt) (concat (map (\<lambda>c. c # children_of vt c) (children_of vt i))))"

section \<open>Conversion state\<close>

text \<open>
  What a conversion pass can change: the two consumables (of view nodes on the way to
  the model, of model items and event names on the way to the view), the mapping from
  model items to view elements, and the two trees.
\<close>

record world =
  viewConsumable :: "(node_id, feature) consumable"
  modelConsumable :: "(node_id, string) consumable"
  mapperToView :: "node_id \<rightharpoonup> node_id"
  viewDoc :: view_tree
  modelDoc :: model_tree

type_synonym position = "nat list"

text \<open>Every call a handler makes on \<^verbatim>\<open>conversionApi\<close> is recorded, in order.\<close>

datatype api_call =
    CTest node_id "feature list"
  | CConsume node_id string
  | CToViewElement node_id
  | CSetAttribute string jsval "node_id option"
  | CRemoveAttribute string "node_id option"
  | CConvertItem node_id position
  | CConvertChildren node_id node_id
  | CUpdateConversionResult node_id

record conv_state =
  world :: world
  calls :: "api_call list"

definition called :: "api_call \<Rightarrow> conv_state \<Rightarrow> conv_state" where
  "called c s = s\<lparr>calls := calls s @ [c]\<rparr>"

fun is_test :: "api_call \<Rightarrow> bool" where
  "is_test (CTest n fs) = True"
| "is_test c = False"

fun is_write :: "api_call \<Rightarrow> bool" where
  "is_write (CSetAttribute k v t) = True"
| "is_write (CRemoveAttribute k t) = True"
| "is_write c = False"

fun is_delegate :: "api_call \<Rightarrow> bool" where
  "is_delegate (CConvertItem v p) = True"
| "is_delegate (CConvertChildren v m) = True"
| "is_delegate (CUpdateConversionResult m) = True"
| "is_delegate c = False"

section \<open>View writer\<close>

text \<open>
  Modelled from the spec: the view writer (\<^verbatim>\<open>conversionApi.writer\<close>) is a collaborator
  outside this file. \<^verbatim>\<open>setAttribute( key, value, target )\<close> sets or overwrites the
  attribute of the target element; view attribute values are strings, so what the
  element then holds is the string form of the value the writer was handed.
  \<^verbatim>\<open>removeAttribute( key, target )\<close> removes the attribute. A target that is absent or
  is no element has no such method: the call throws, and nothing is written. The
  recorded call keeps the value as it was handed over.
\<close>

type_synonym outcome = "(js_error \<times> conv_state) + conv_state"

definition write_element ::
  "(view_element \<Rightarrow> view_element) \<Rightarrow> node_id option \<Rightarrow> conv_state \<Rightarrow> outcome" where
  "write_element f target s =
     (case target of
        None \<Rightarrow> Inl (TypeError, s)
      | Some i \<Rightarrow>
          (case viewDoc (world s) i of
             Some (Element e) \<Rightarrow>
               Inr (s\<lparr>world := (world s)\<lparr>viewDoc := (viewDoc (world s))(i \<mapsto> Element (f e))\<rparr>\<rparr>)
           | _ \<Rightarrow> Inl (TypeError, s)))"

definition writer_setAttribute ::
  "string \<Rightarrow> jsval \<Rightarrow> node_id option \<Rightarrow> conv_state \<Rightarrow> outcome" where
  "writer_setAttribute k v target s =
     write_element (\<lambda>e. e\<lparr>el_attrs := (el_attrs e)(k \<mapsto> js_toString v)\<rparr>) target
       (called (CSetAttribute k v target) s)"

definition writer_removeAttribute :: "string \<Rightarrow> node_id option \<Rightarrow> conv_state \<Rightarrow> outcome" where
  "writer_removeAttribute k target s =
     write_element (\<lambda>e. e\<lparr>el_attrs := (el_attrs e)(k := None)\<rparr>) target
       (called (CRemoveAttribute k target) s)"

text \<open>Sequencing: a statement after one that threw does not run.\<close>

definition and_then :: "outcome \<Rightarrow> (conv_state \<Rightarrow> outcome) \<Rightarrow> outcome" where
  "and_then r f = (case r of Inl e \<Rightarrow> Inl e | Inr s \<Rightarrow> f s)"

definition final_state :: "outcome \<Rightarrow> conv_state" where
  "final_state r = (case r of Inl (e, s) \<Rightarrow> s | Inr s \<Rightarrow> s)"

section \<open>Element converter (figure to image)\<close>

text \<open>
  The event data of an \<^verbatim>\<open>element:figure\<close> event, and the three entry points of the
  conversion engine that the converter delegates to. They are collaborators outside
  this file and are taken as they come: any functions on the conversion state.
  \<^verbatim>\<open>convertItem\<close> returns the range of the nodes it produced (here: the items of
  the range, in order) and the new cursor.
\<close>

record upcast_data =
  viewItem :: node_id
  modelCursor :: position
  modelRange :: "node_id list option"

record conversion_result =
  resultRange :: "node_id list"
  resultCursor :: position

record upcast_api =
  convertItem :: "node_id \<Rightarrow> position \<Rightarrow> world \<Rightarrow> conversion_result \<times> world"
  convertChildren :: "node_id \<Rightarrow> node_id \<Rightarrow> world \<Rightarrow> world"
  updateConversionResult :: "node_id \<Rightarrow> upcast_data \<Rightarrow> world \<Rightarrow> upcast_data \<times> world"

text \<open>
  Modelled from the spec: \<^verbatim>\<open>first\<close> is imported from the utils package, which is not
  among the source files. It extracts the first produced item, or nothing.
\<close>

definition first :: "'a list \<Rightarrow> 'a option" where
  "first xs = (case xs of [] \<Rightarrow> None | x # rest \<Rightarrow> Some x)"

definition node_hasAttribute :: "view_tree \<Rightarrow> node_id \<Rightarrow> string \<Rightarrow> bool" where
  "node_hasAttribute vt i k = (case vt i of Some (Element e) \<Rightarrow> hasAttribute e k | _ \<Rightarrow> False)"

definition figure_features :: "feature list" where
  "figure_features = [Name, Classes ''image'']"

definition viewFigureToModel_event :: string where
  "viewFigureToModel_event = ''element:figure''"

definition viewFigureToModel ::
  "upcast_api \<Rightarrow> upcast_data \<Rightarrow> conv_state \<Rightarrow> upcast_data \<times> conv_state" where
  "viewFigureToModel api data s0 =
     (let s1 = called (CTest (viewItem data) figure_features) s0 in
      if \<not> consumable_test (viewConsumable (world s1)) (viewItem data) figure_features
      then (data, s1)
      else
        (case getViewImgFromWidget (viewDoc (world s1)) (viewItem data) of
           None \<Rightarrow> (data, s1)
         | Some viewImage \<Rightarrow>
             if \<not> node_hasAttribute (viewDoc (world s1)) viewImage ''src'' then (data, s1)
             else
               (let s2 = called (CTest viewImage [Name]) s1 in
                if \<not> consumable_test (viewConsumable (world s2)) viewImage [Name]
                then (data, s2)
                else
                  (let s3 = called (CConvertItem viewImage (modelCursor data)) s2;
                       (conversionResult, w4) =
                          convertItem api viewImage (modelCursor data) (world s3);
                       s4 = s3\<lparr>world := w4\<rparr>
                   in
                     (case first (resultRange conversionResult) of
                        None \<Rightarrow> (data, s4)
                      | Some modelImage \<Rightarrow>
                          (let s5 = called (CConvertChildren (viewItem data) modelImage) s4;
                               s6 = s5\<lparr>world :=
                                      convertChildren api (viewItem data) modelImage (world s5)\<rparr>;
                               s7 = called (CUpdateConversionResult modelImage) s6;
                               (data', w8) =
                                  updateConversionResult api modelImage data (world s7)
                           in (data', s7\<lparr>world := w8\<rparr>)))))))"

section \<open>Attribute converters (model to view)\<close>

text \<open>
  The event data of an attribute change. The event name (\<^verbatim>\<open>evt.name\<close>) is the string
  the handler was registered under, and is the feature it consumes on the item.
\<close>

record downcast_data =
  item :: node_id
  attributeKey :: string
  attributeOldValue :: jsval
  attributeNewValue :: jsval

definition srcsetAttributeConverter_event :: "string \<Rightarrow> string" where
  "srcsetAttributeConverter_event imageType = ''attribute:srcset:'' @ imageType"

definition modelToViewAttributeConverter_event :: "string \<Rightarrow> string \<Rightarrow> string" where
  "modelToViewAttributeConverter_event key imageType =
     ''attribute:'' @ key @ '':'' @ imageType"

definition consume_event :: "string \<Rightarrow> downcast_data \<Rightarrow> conv_state \<Rightarrow> bool \<times> conv_state" where
  "consume_event evt_name data s =
     (let (ok, c) = consumable_consume (modelConsumable (world s)) (item data) [evt_name]
      in (ok, (called (CConsume (item data) evt_name) s)
                \<lparr>world := (world s)\<lparr>modelConsumable := c\<rparr>\<rparr>))"

definition read_prop :: "jsval \<Rightarrow> string \<Rightarrow> conv_state \<Rightarrow> (jsval \<Rightarrow> outcome) \<Rightarrow> outcome" where
  "read_prop v k s f = (case getProp v k of Inl e \<Rightarrow> Inl (e, s) | Inr x \<Rightarrow> f x)"

text \<open>
  Both handlers look the view element up with \<^verbatim>\<open>mapper.toViewElement\<close> and hand it to
  the locator unchecked. When the mapper has no view element for the item, the locator
  is called on \<^verbatim>\<open>undefined\<close> and its member access throws.
\<close>

definition srcsetAttributeConverter :: "string \<Rightarrow> downcast_data \<Rightarrow> conv_state \<Rightarrow> outcome" where
  "srcsetAttributeConverter evt_name data s0 =
     (let (ok, s1) = consume_event evt_name data s0 in
      if \<not> ok then Inr s1
      else
        (let s2 = called (CToViewElement (item data)) s1 in
         case mapperToView (world s2) (item data) of
           None \<Rightarrow> Inl (TypeError, s2)
         | Some element \<Rightarrow>
             (let img = getViewImgFromWidget (viewDoc (world s2)) element in
              if attributeNewValue data = JNull then
                (let srcset = attributeOldValue data in
                 read_prop srcset ''data'' s2 (\<lambda>d.
                   if truthy d then
                     and_then
                       (and_then (writer_removeAttribute ''srcset'' img s2)
                          (writer_removeAttribute ''sizes'' img))
                       (\<lambda>s. read_prop srcset ''width'' s (\<lambda>w.
                          if truthy w then writer_removeAttribute ''width'' img s else Inr s))
                   else Inr s2))
              else
                (let srcset = attributeNewValue data in
                 read_prop srcset ''data'' s2 (\<lambda>d.
                   if truthy d then
                     and_then
                       (and_then (writer_setAttribute ''srcset'' d img s2)
                          (writer_setAttribute ''sizes'' (JStr ''100vw'') img))
                       (\<lambda>s. read_prop srcset ''width'' s (\<lambda>w.
                          if truthy w then writer_setAttribute ''width'' w img s else Inr s))
                   else Inr s2)))))"

definition modelToViewAttributeConverter ::
  "string \<Rightarrow> downcast_data \<Rightarrow> conv_state \<Rightarrow> outcome" where
  "modelToViewAttributeConverter evt_name data s0 =
     (let (ok, s1) = consume_event evt_name data s0 in
      if \<not> ok then Inr s1
      else
        (let s2 = called (CToViewElement (item data)) s1 in
         case mapperToView (world s2) (item data) of
           None \<Rightarrow> Inl (TypeError, s2)
         | Some element \<Rightarrow>
             (let img = getViewImgFromWidget (viewDoc (world s2)) element in
              writer_setAttribute (attributeKey data)
                (js_or (attributeNewValue data) (JStr [])) img s2)))"

section \<open>Upcast attribute mappers (view to model)\<close>

text \<open>
  \<^verbatim>\<open>addUpcastImageConverters\<close> declares two attribute-to-attribute mappings. A
  declaration names the view element and attribute key, the model attribute key and,
  optionally, the function that builds the model value from the view element.
\<close>

record attribute_mapping =
  view_name :: string
  view_key :: string
  model_key :: string
  model_value :: "(view_element \<Rightarrow> jsval) option"

text \<open>The assignment \<^verbatim>\<open>value.k = v\<close> on a plain object.\<close>

fun set_field :: "(string \<times> jsval) list \<Rightarrow> string \<Rightarrow> jsval \<Rightarrow> (string \<times> jsval) list" where
  "set_field [] k v = [(k, v)]"
| "set_field ((k', v') # fs) k v =
     (if k' = k then (k, v) # fs else (k', v') # set_field fs k v)"

definition upcastSrcsetValue :: "view_element \<Rightarrow> jsval" where
  "upcastSrcsetValue viewImage =
     (let fields = [(''data'', getAttribute viewImage ''srcset'')] in
      if hasAttribute viewImage ''width''
      then JObj (set_field fields ''width'' (getAttribute viewImage ''width''))
      else JObj fields)"

definition upcastAltMapping :: attribute_mapping where
  "upcastAltMapping =
     \<lparr>view_name = ''img'', view_key = ''alt'', model_key = ''alt'', model_value = None\<rparr>"

definition upcastSrcsetMapping :: attribute_mapping where
  "upcastSrcsetMapping =
     \<lparr>view_name = ''img'', view_key = ''srcset'', model_key = ''srcset'',
      model_value = Some upcastSrcsetValue\<rparr>"

definition addUpcastImageConverters :: "attribute_mapping list" where
  "addUpcastImageConverters = [upcastAltMapping, upcastSrcsetMapping]"

text \<open>
  Modelled from the spec: \<^verbatim>\<open>attributeToAttribute\<close> belongs to the conversion engine,
  whose code is not in this file. A declared mapping applies to a view element of the
  declared name that carries the declared attribute, and yields the model attribute
  key with the raw view value, or with the value the transform function builds.
\<close>

definition apply_mapping :: "attribute_mapping \<Rightarrow> view_element \<Rightarrow> (string \<times> jsval) option" where
  "apply_mapping m e =
     (if el_name e = view_name m \<and> hasAttribute e (view_key m)
      then Some (model_key m,
                 case model_value m of None \<Rightarrow> getAttribute e (view_key m) | Some f \<Rightarrow> f e)
      else None)"

section \<open>A small conversion pass\<close>

text \<open>
  The view \<^verbatim>\<open><figure class="image"><img src="a.png"></figure>\<close> (nodes 0 and 1), bound to
  the model item 7, with every feature still available.
\<close>

definition ex_figure :: view_element where
  "ex_figure =
     \<lparr>el_name = ''figure'', el_attrs = Map.empty, el_children = [1], el_classes = [''image'']\<rparr>"

definition ex_img :: view_element where
  "ex_img =
     \<lparr>el_name = ''img'', el_attrs = [''src'' \<mapsto> ''a.png''], el_children = [],
      el_classes = []\<rparr>"

definition ex_view :: view_tree where
  "ex_view = [0 \<mapsto> Element ex_figure, 1 \<mapsto> Element ex_img]"

definition ex_world :: world where
  "ex_world =
     \<lparr>viewConsumable = [(0, Name) \<mapsto> True, (0, Classes ''image'') \<mapsto> True, (1, Name) \<mapsto> True],
      modelConsumable =
        [(7, ''attribute:srcset:image'') \<mapsto> True, (7, ''attribute:alt:image'') \<mapsto> True],
      mapperToView = [7 \<mapsto> 0],
      viewDoc = ex_view,
      modelDoc = Map.empty\<rparr>"

definition ex_state :: conv_state where
  "ex_state = \<lparr>world = ex_world, calls = []\<rparr>"

definition ex_srcset_change :: "jsval \<Rightarrow> jsval \<Rightarrow> downcast_data" where
  "ex_srcset_change old new =
     \<lparr>item = 7, attributeKey = ''srcset'', attributeOldValue = old, attributeNewValue = new\<rparr>"

definition ex_alt_change :: "jsval \<Rightarrow> jsval \<Rightarrow> downcast_data" where
  "ex_alt_change old new =
     \<lparr>item = 7, attributeKey = ''alt'', attributeOldValue = old, attributeNewValue = new\<rparr>"

text \<open>The same pass with the img already carrying \<^verbatim>\<open>srcset\<close>, \<^verbatim>\<open>sizes\<close> and \<^verbatim>\<open>width\<close>.\<close>

definition ex_img_srcset :: view_element where
  "ex_img_srcset =
     ex_img\<lparr>el_attrs := (el_attrs ex_img)(''srcset'' \<mapsto> ''x 1x'',
       ''sizes'' \<mapsto> ''100vw'', ''width'' \<mapsto> ''300'')\<rparr>"

definition ex_state_srcset :: conv_state where
  "ex_state_srcset =
     \<lparr>world = ex_world\<lparr>viewDoc := ex_view(1 \<mapsto> Element ex_img_srcset)\<rparr>, calls = []\<rparr>"

text \<open>The same pass after the srcset change of item 7 has been consumed.\<close>

definition ex_state_consumed :: conv_state where
  "ex_state_consumed =
     \<lparr>world = ex_world\<lparr>modelConsumable :=
        (modelConsumable ex_world)((7, ''attribute:srcset:image'') \<mapsto> False)\<rparr>,
      calls = []\<rparr>"

text \<open>
  Two stand-ins for the conversion engine: one whose item conversion produces the model
  element 7 for the img and consumes the img's name, and one whose item conversion
  declines (an empty range, nothing consumed).
\<close>

definition ex_api :: upcast_api where
  "ex_api =
     \<lparr>convertItem = (\<lambda>v cursor w.
        (\<lparr>resultRange = [7], resultCursor = cursor\<rparr>,
         w\<lparr>viewConsumable := (viewConsumable w)((v, Name) \<mapsto> False),
           modelDoc := (modelDoc w)(7 \<mapsto> ModelElement
             \<lparr>me_type = ''image'', me_attrs = Map.empty, me_children = []\<rparr>)\<rparr>)),
      convertChildren = (\<lambda>v m w. w),
      updateConversionResult = (\<lambda>m d w. (d\<lparr>modelRange := Some [m]\<rparr>, w))\<rparr>"

definition ex_api_declining :: upcast_api where
  "ex_api_declining =
     ex_api\<lparr>convertItem := (\<lambda>v cursor w. (\<lparr>resultRange = [], resultCursor = cursor\<rparr>, w))\<rparr>"

definition ex_figure_event :: upcast_data where
  "ex_figure_event = \<lparr>viewItem = 0, modelCursor = [0], modelRange = None\<rparr>"

text \<open>The same figure around an img without \<^verbatim>\<open>src\<close>.\<close>

definition ex_state_no_src :: conv_state where
  "ex_state_no_src =
     \<lparr>world = ex_world\<lparr>viewDoc := ex_view(1 \<mapsto> Element (ex_img\<lparr>el_attrs := Map.empty\<rparr>))\<rparr>,
      calls = []\<rparr>"

section \<open>Describing a run\<close>

text \<open>
  Two notions the proofs about whole runs use. \<open>extends_by_writes s s'\<close>: from \<open>s\<close> to
  \<open>s'\<close> only writer calls were made, and the consumables are the same.
  \<open>after_consume evt d s\<close>: the state right after a successful consume of the event
  and the mapper lookup.
\<close>

definition extends_by_writes :: "conv_state \<Rightarrow> conv_state \<Rightarrow> bool" where
  "extends_by_writes s s' =
     (modelConsumable (world s') = modelConsumable (world s)
      \<and> viewConsumable (world s') = viewConsumable (world s)
      \<and> take (length (calls s)) (calls s') = calls s
      \<and> list_all is_write (drop (length (calls s)) (calls s')))"

definition after_consume :: "string \<Rightarrow> downcast_data \<Rightarrow> conv_state \<Rightarrow> conv_state" where
  "after_consume evt d s =
     \<lparr>world = (world s)\<lparr>modelConsumable :=
               (modelConsumable (world s))((item d, evt) \<mapsto> False)\<rparr>,
      calls = calls s @ [CConsume (item d) evt, CToViewElement (item d)]\<rparr>"

section \<open>Theorems\<close>

lemma consumable_consume_fails:
  "\<not> consumable_test c n fs \<Longrightarrow> consumable_consume c n fs = (False, c)"
  by (simp add: consumable_consume_def)

lemma consumed_not_test:
  "f \<in> set fs \<Longrightarrow> c (n, f) = Some False \<Longrightarrow> \<not> consumable_test c n fs"
  by (force simp: consumable_test_def list_all_iff)

lemma js_toString_numbers:
  "js_toString (JNum 5) = ''5''"
  "js_toString (JNum 300) = ''300''"
  by code_simp+

lemmas conv_defs =
  srcsetAttributeConverter_def modelToViewAttributeConverter_def consume_event_def
  consumable_consume_def called_def writer_setAttribute_def writer_removeAttribute_def
  write_element_def and_then_def read_prop_def Let_def mark_consumed_def

lemmas ex_defs =
  ex_state_def ex_world_def ex_view_def ex_img_def ex_figure_def ex_srcset_change_def
  ex_alt_change_def ex_img_srcset_def ex_state_srcset_def ex_api_def ex_api_declining_def
  ex_figure_event_def ex_state_no_src_def ex_state_consumed_def consumable_test_def getViewImgFromWidget_def is_img_def children_of_def

subsection \<open>The consumable gate is all-or-nothing\<close>

text \<open>
  C8. When consumption of a set of features is requested and at least one of them is
  already consumed, the call reports failure and the gate is left as it was: the
  status of every feature, the still-unconsumed ones of the request included, is
  unchanged.
\<close>

theorem consume_all_or_nothing:
  "f \<in> set fs \<Longrightarrow> c (n, f) = Some False \<Longrightarrow> consumable_consume c n fs = (False, c)"
  by (simp add: consumable_consume_fails consumed_not_test)

theorem consume_all_or_nothing_witness:
  "Classes ''image'' \<in> set [Name, Classes ''image'']
   \<and> [(0::nat, Name) \<mapsto> True, (0, Classes ''image'') \<mapsto> False] (0, Classes ''image'') = Some False
   \<and> consumable_consume [(0::nat, Name) \<mapsto> True, (0, Classes ''image'') \<mapsto> False] 0
        [Name, Classes ''image'']
      = (False, [(0, Name) \<mapsto> True, (0, Classes ''image'') \<mapsto> False])"
  using consume_all_or_nothing [of "Classes ''image''" "[Name, Classes ''image'']"
      "[(0::nat, Name) \<mapsto> True, (0, Classes ''image'') \<mapsto> False]" 0]
  by simp

subsection \<open>Srcset converter: setting the attribute\<close>

text \<open>
  C3 as stated fails: the converter tests the \<^verbatim>\<open>data\<close> field as a condition, so a
  new value that has a \<^verbatim>\<open>data\<close> field holding the empty string sets nothing. Here
  the new value is \<^verbatim>\<open>{data: ""}\<close>: the event is consumed, the writer is never called
  and the view is as it was.
\<close>

theorem srcset_set_empty_data_counterexample:
  "hasField (JObj [(''data'', JStr [])]) ''data''
   \<and> JObj [(''data'', JStr [])] \<noteq> JNull
   \<and> srcsetAttributeConverter ''attribute:srcset:image''
        (ex_srcset_change JNull (JObj [(''data'', JStr [])])) ex_state
      = Inr \<lparr>world = ex_world\<lparr>modelConsumable :=
                (modelConsumable ex_world)((7, ''attribute:srcset:image'') \<mapsto> False)\<rparr>,
             calls = [CConsume 7 ''attribute:srcset:image'', CToViewElement 7]\<rparr>"
  by (simp add: conv_defs ex_defs)

text \<open>
  C3, amended. On a srcset change whose new value is not null, with the event still
  available and the inner img found: if the \<^verbatim>\<open>data\<close> field of the new value is truthy
  (a non-empty string), the converter sets the view \<^verbatim>\<open>srcset\<close> to it and
  \<^verbatim>\<open>sizes\<close> to the literal \<^verbatim>\<open>100vw\<close>, and sets \<^verbatim>\<open>width\<close> if and only if the
  \<^verbatim>\<open>width\<close> field is truthy as well; if \<^verbatim>\<open>data\<close> is absent or falsy, no view
  attribute is set; if the new value is \<^verbatim>\<open>undefined\<close>, reading \<^verbatim>\<open>data\<close> throws and
  no view attribute is set either. The writer is handed the field values as they are;
  what the img then holds is their string form, which for a string is the string.
\<close>

theorem srcset_set:
  assumes "consumable_test (modelConsumable (world s)) (item d) [evt]"
    and "mapperToView (world s) (item d) = Some el"
    and "getViewImgFromWidget (viewDoc (world s)) el = Some img"
    and "viewDoc (world s) img = Some (Element e)"
    and "attributeNewValue d \<noteq> JNull"
  shows "(getProp (attributeNewValue d) ''data'' = Inr dv
          \<and> getProp (attributeNewValue d) ''width'' = Inr wv \<and> truthy dv \<and> truthy wv \<longrightarrow>
           srcsetAttributeConverter evt d s =
             Inr \<lparr>world = (world s)\<lparr>
                    modelConsumable := (modelConsumable (world s))((item d, evt) \<mapsto> False),
                    viewDoc := (viewDoc (world s))(img \<mapsto> Element (e\<lparr>el_attrs :=
                      (el_attrs e)(''srcset'' \<mapsto> js_toString dv, ''sizes'' \<mapsto> ''100vw'',
                        ''width'' \<mapsto> js_toString wv)\<rparr>))\<rparr>,
                  calls = calls s @ [CConsume (item d) evt, CToViewElement (item d),
                    CSetAttribute ''srcset'' dv (Some img),
                    CSetAttribute ''sizes'' (JStr ''100vw'') (Some img),
                    CSetAttribute ''width'' wv (Some img)]\<rparr>)
       \<and> (getProp (attributeNewValue d) ''data'' = Inr dv
          \<and> getProp (attributeNewValue d) ''width'' = Inr wv \<and> truthy dv \<and> \<not> truthy wv \<longrightarrow>
           srcsetAttributeConverter evt d s =
             Inr \<lparr>world = (world s)\<lparr>
                    modelConsumable := (modelConsumable (world s))((item d, evt) \<mapsto> False),
                    viewDoc := (viewDoc (world s))(img \<mapsto> Element (e\<lparr>el_attrs :=
                      (el_attrs e)(''srcset'' \<mapsto> js_toString dv, ''sizes'' \<mapsto> ''100vw'')\<rparr>))\<rparr>,
                  calls = calls s @ [CConsume (item d) evt, CToViewElement (item d),
                    CSetAttribute ''srcset'' dv (Some img),
                    CSetAttribute ''sizes'' (JStr ''100vw'') (Some img)]\<rparr>)
       \<and> (getProp (attributeNewValue d) ''data'' = Inr dv \<and> \<not> truthy dv \<longrightarrow>
           srcsetAttributeConverter evt d s =
             Inr \<lparr>world = (world s)\<lparr>
                    modelConsumable := (modelConsumable (world s))((item d, evt) \<mapsto> False)\<rparr>,
                  calls = calls s @ [CConsume (item d) evt, CToViewElement (item d)]\<rparr>)
       \<and> (getProp (attributeNewValue d) ''data'' = Inl err \<longrightarrow>
           srcsetAttributeConverter evt d s =
             Inl (err, \<lparr>world = (world s)\<lparr>
                    modelConsumable := (modelConsumable (world s))((item d, evt) \<mapsto> False)\<rparr>,
                  calls = calls s @ [CConsume (item d) evt, CToViewElement (item d)]\<rparr>))
       \<and> js_toString (JStr str) = str"
  using assms by (simp add: conv_defs)

theorem srcset_set_witness:
  "srcsetAttributeConverter ''attribute:srcset:image''
     (ex_srcset_change JNull (JObj [(''data'', JStr ''x 1x'')])) ex_state
   = Inr \<lparr>world = ex_world\<lparr>
            modelConsumable :=
              (modelConsumable ex_world)((7, ''attribute:srcset:image'') \<mapsto> False),
            viewDoc := (viewDoc ex_world)(1 \<mapsto> Element (ex_img\<lparr>el_attrs :=
              (el_attrs ex_img)(''srcset'' \<mapsto> ''x 1x'', ''sizes'' \<mapsto> ''100vw'')\<rparr>))\<rparr>,
          calls = [CConsume 7 ''attribute:srcset:image'', CToViewElement 7,
            CSetAttribute ''srcset'' (JStr ''x 1x'') (Some 1),
            CSetAttribute ''sizes'' (JStr ''100vw'') (Some 1)]\<rparr>
   \<and> srcsetAttributeConverter ''attribute:srcset:image''
     (ex_srcset_change JNull (JObj [(''data'', JNum 5), (''width'', JNum 300)])) ex_state
   = Inr \<lparr>world = ex_world\<lparr>
            modelConsumable :=
              (modelConsumable ex_world)((7, ''attribute:srcset:image'') \<mapsto> False),
            viewDoc := (viewDoc ex_world)(1 \<mapsto> Element (ex_img\<lparr>el_attrs :=
              (el_attrs ex_img)(''srcset'' \<mapsto> ''5'', ''sizes'' \<mapsto> ''100vw'',
                ''width'' \<mapsto> ''300'')\<rparr>))\<rparr>,
          calls = [CConsume 7 ''attribute:srcset:image'', CToViewElement 7,
            CSetAttribute ''srcset'' (JNum 5) (Some 1),
            CSetAttribute ''sizes'' (JStr ''100vw'') (Some 1),
            CSetAttribute ''width'' (JNum 300) (Some 1)]\<rparr>"
  using srcset_set [of ex_state "ex_srcset_change JNull (JObj [(''data'', JStr ''x 1x'')])"
      "''attribute:srcset:image''" 0 1 ex_img "JStr ''x 1x''" JUndefined]
    srcset_set [of ex_state
      "ex_srcset_change JNull (JObj [(''data'', JNum 5), (''width'', JNum 300)])"
      "''attribute:srcset:image''" 0 1 ex_img "JNum 5" "JNum 300"]
  by (simp add: ex_defs js_toString_numbers del: js_toString.simps(4))

subsection \<open>Srcset converter: removing the attribute\<close>

text \<open>
  C4 as stated fails for the same reason: an old value \<^verbatim>\<open>{data: ""}\<close> has a
  \<^verbatim>\<open>data\<close> field, yet on removal the converter removes nothing. The img keeps its
  \<^verbatim>\<open>srcset\<close> and \<^verbatim>\<open>sizes\<close>, and the writer is never called.
\<close>

theorem srcset_remove_empty_data_counterexample:
  "hasField (JObj [(''data'', JStr [])]) ''data''
   \<and> srcsetAttributeConverter ''attribute:srcset:image''
        (ex_srcset_change (JObj [(''data'', JStr [])]) JNull) ex_state_srcset
      = Inr \<lparr>world = (world ex_state_srcset)\<lparr>modelConsumable :=
                (modelConsumable ex_world)((7, ''attribute:srcset:image'') \<mapsto> False)\<rparr>,
             calls = [CConsume 7 ''attribute:srcset:image'', CToViewElement 7]\<rparr>
   \<and> viewDoc (world ex_state_srcset) 1 = Some (Element ex_img_srcset)
   \<and> getAttribute ex_img_srcset ''srcset'' = JStr ''x 1x''"
  by (simp add: conv_defs ex_defs getAttribute_def)

text \<open>
  C4, amended. On a srcset change whose new value is null, with the event still
  available and the inner img found: if the \<^verbatim>\<open>data\<close> field of the old value is truthy
  (a non-empty string), the converter removes the view \<^verbatim>\<open>srcset\<close> and \<^verbatim>\<open>sizes\<close>,
  and removes \<^verbatim>\<open>width\<close> if and only if the \<^verbatim>\<open>width\<close> field of the old value is
  truthy as well; if \<^verbatim>\<open>data\<close> is absent or falsy, no view attribute is removed.
\<close>

theorem srcset_remove:
  assumes "consumable_test (modelConsumable (world s)) (item d) [evt]"
    and "mapperToView (world s) (item d) = Some el"
    and "getViewImgFromWidget (viewDoc (world s)) el = Some img"
    and "viewDoc (world s) img = Some (Element e)"
    and "attributeNewValue d = JNull"
  shows "(getProp (attributeOldValue d) ''data'' = Inr dv
          \<and> getProp (attributeOldValue d) ''width'' = Inr wv \<and> truthy dv \<and> truthy wv \<longrightarrow>
           srcsetAttributeConverter evt d s =
             Inr \<lparr>world = (world s)\<lparr>
                    modelConsumable := (modelConsumable (world s))((item d, evt) \<mapsto> False),
                    viewDoc := (viewDoc (world s))(img \<mapsto> Element (e\<lparr>el_attrs :=
                      (el_attrs e)(''srcset'' := None, ''sizes'' := None, ''width'' := None)\<rparr>))\<rparr>,
                  calls = calls s @ [CConsume (item d) evt, CToViewElement (item d),
                    CRemoveAttribute ''srcset'' (Some img),
                    CRemoveAttribute ''sizes'' (Some img),
                    CRemoveAttribute ''width'' (Some img)]\<rparr>)
       \<and> (getProp (attributeOldValue d) ''data'' = Inr dv
          \<and> getProp (attributeOldValue d) ''width'' = Inr wv \<and> truthy dv \<and> \<not> truthy wv \<longrightarrow>
           srcsetAttributeConverter evt d s =
             Inr \<lparr>world = (world s)\<lparr>
                    modelConsumable := (modelConsumable (world s))((item d, evt) \<mapsto> False),
                    viewDoc := (viewDoc (world s))(img \<mapsto> Element (e\<lparr>el_attrs :=
                      (el_attrs e)(''srcset'' := None, ''sizes'' := None)\<rparr>))\<rparr>,
                  calls = calls s @ [CConsume (item d) evt, CToViewElement (item d),
                    CRemoveAttribute ''srcset'' (Some img),
                    CRemoveAttribute ''sizes'' (Some img)]\<rparr>)
       \<and> (getProp (attributeOldValue d) ''data'' = Inr dv \<and> \<not> truthy dv \<longrightarrow>
           srcsetAttributeConverter evt d s =
             Inr \<lparr>world = (world s)\<lparr>
                    modelConsumable := (modelConsumable (world s))((item d, evt) \<mapsto> False)\<rparr>,
                  calls = calls s @ [CConsume (item d) evt, CToViewElement (item d)]\<rparr>)"
  using assms by (simp add: conv_defs)

theorem srcset_remove_witness:
  "srcsetAttributeConverter ''attribute:srcset:image''
     (ex_srcset_change (JObj [(''data'', JStr ''x 1x''), (''width'', JStr ''300'')]) JNull)
     ex_state_srcset
   = Inr \<lparr>world = ex_world\<lparr>
            modelConsumable :=
              (modelConsumable ex_world)((7, ''attribute:srcset:image'') \<mapsto> False),
            viewDoc := (ex_view(1 \<mapsto> Element ex_img_srcset))(1 \<mapsto> Element (ex_img_srcset\<lparr>el_attrs :=
              (el_attrs ex_img_srcset)(''srcset'' := None, ''sizes'' := None,
                ''width'' := None)\<rparr>))\<rparr>,
          calls = [CConsume 7 ''attribute:srcset:image'', CToViewElement 7,
            CRemoveAttribute ''srcset'' (Some 1), CRemoveAttribute ''sizes'' (Some 1),
            CRemoveAttribute ''width'' (Some 1)]\<rparr>
   \<and> srcsetAttributeConverter ''attribute:srcset:image''
     (ex_srcset_change (JObj [(''width'', JStr ''300'')]) JNull) ex_state_srcset
   = Inr \<lparr>world = (world ex_state_srcset)\<lparr>
            modelConsumable :=
              (modelConsumable ex_world)((7, ''attribute:srcset:image'') \<mapsto> False)\<rparr>,
          calls = [CConsume 7 ''attribute:srcset:image'', CToViewElement 7]\<rparr>"
  using srcset_remove [of ex_state_srcset
      "ex_srcset_change (JObj [(''data'', JStr ''x 1x''), (''width'', JStr ''300'')]) JNull"
      "''attribute:srcset:image''" 0 1 ex_img_srcset "JStr ''x 1x''" "JStr ''300''"]
    srcset_remove [of ex_state_srcset
      "ex_srcset_change (JObj [(''width'', JStr ''300'')]) JNull"
      "''attribute:srcset:image''" 0 1 ex_img_srcset JUndefined "JStr ''300''"]
  by (simp add: ex_defs)

subsection \<open>Generic attribute mirror\<close>

text \<open>
  C5. For an attribute change whose event is still available, with the inner img
  found: a null new value makes the converter set the view attribute of the changed
  key to the empty string on the img. The writer is asked to set, never to remove,
  and the img carries the attribute afterwards.
\<close>

theorem mirror_null_sets_empty:
  assumes "consumable_test (modelConsumable (world s)) (item d) [evt]"
    and "mapperToView (world s) (item d) = Some el"
    and "getViewImgFromWidget (viewDoc (world s)) el = Some img"
    and "viewDoc (world s) img = Some (Element e)"
    and "attributeNewValue d = JNull"
  shows "modelToViewAttributeConverter evt d s =
           Inr \<lparr>world = (world s)\<lparr>
                  modelConsumable := (modelConsumable (world s))((item d, evt) \<mapsto> False),
                  viewDoc := (viewDoc (world s))(img \<mapsto> Element (e\<lparr>el_attrs :=
                    (el_attrs e)(attributeKey d \<mapsto> [])\<rparr>))\<rparr>,
                calls = calls s @ [CConsume (item d) evt, CToViewElement (item d),
                  CSetAttribute (attributeKey d) (JStr []) (Some img)]\<rparr>
         \<and> hasAttribute (e\<lparr>el_attrs := (el_attrs e)(attributeKey d \<mapsto> [])\<rparr>)
              (attributeKey d)"
  using assms by (simp add: conv_defs js_or_def hasAttribute_def)

theorem mirror_null_sets_empty_witness:
  "modelToViewAttributeConverter ''attribute:alt:image'' (ex_alt_change (JStr ''a cat'') JNull)
     ex_state
   = Inr \<lparr>world = ex_world\<lparr>
            modelConsumable := (modelConsumable ex_world)((7, ''attribute:alt:image'') \<mapsto> False),
            viewDoc := (viewDoc ex_world)(1 \<mapsto> Element (ex_img\<lparr>el_attrs :=
              (el_attrs ex_img)(''alt'' \<mapsto> [])\<rparr>))\<rparr>,
          calls = [CConsume 7 ''attribute:alt:image'', CToViewElement 7,
            CSetAttribute ''alt'' (JStr []) (Some 1)]\<rparr>"
  using mirror_null_sets_empty [of ex_state "ex_alt_change (JStr ''a cat'') JNull"
      "''attribute:alt:image''" 0 1 ex_img]
  by (simp add: ex_defs)

text \<open>
  C10. The value the mirror hands to the writer is \<^verbatim>\<open>data.attributeNewValue || ''\<close>:
  the empty string for every falsy new value (null, undefined and the empty string
  among them), the new value itself, unchanged, for every truthy one. The img then holds
  the string form of that value: the empty string for a falsy new value, the string
  itself for a non-empty string.
\<close>

theorem mirror_falsy_coercion:
  assumes "consumable_test (modelConsumable (world s)) (item d) [evt]"
    and "mapperToView (world s) (item d) = Some el"
    and "getViewImgFromWidget (viewDoc (world s)) el = Some img"
    and "viewDoc (world s) img = Some (Element e)"
  shows "modelToViewAttributeConverter evt d s =
           Inr \<lparr>world = (world s)\<lparr>
                  modelConsumable := (modelConsumable (world s))((item d, evt) \<mapsto> False),
                  viewDoc := (viewDoc (world s))(img \<mapsto> Element (e\<lparr>el_attrs :=
                    (el_attrs e)(attributeKey d \<mapsto>
                      (if truthy (attributeNewValue d) then js_toString (attributeNewValue d)
                       else []))\<rparr>))\<rparr>,
                calls = calls s @ [CConsume (item d) evt, CToViewElement (item d),
                  CSetAttribute (attributeKey d)
                    (if truthy (attributeNewValue d) then attributeNewValue d else JStr [])
                    (Some img)]\<rparr>
         \<and> \<not> truthy JNull \<and> \<not> truthy JUndefined \<and> \<not> truthy (JStr [])
         \<and> truthy (JStr (c # str)) \<and> js_toString (JStr (c # str)) = c # str"
  using assms by (simp add: conv_defs js_or_def)

theorem mirror_falsy_coercion_witness:
  "modelToViewAttributeConverter ''attribute:alt:image'' (ex_alt_change JNull JUndefined)
     ex_state
   = Inr \<lparr>world = ex_world\<lparr>
            modelConsumable := (modelConsumable ex_world)((7, ''attribute:alt:image'') \<mapsto> False),
            viewDoc := (viewDoc ex_world)(1 \<mapsto> Element (ex_img\<lparr>el_attrs :=
              (el_attrs ex_img)(''alt'' \<mapsto> [])\<rparr>))\<rparr>,
          calls = [CConsume 7 ''attribute:alt:image'', CToViewElement 7,
            CSetAttribute ''alt'' (JStr []) (Some 1)]\<rparr>
   \<and> modelToViewAttributeConverter ''attribute:alt:image''
       (ex_alt_change JNull (JStr ''a cat'')) ex_state
   = Inr \<lparr>world = ex_world\<lparr>
            modelConsumable := (modelConsumable ex_world)((7, ''attribute:alt:image'') \<mapsto> False),
            viewDoc := (viewDoc ex_world)(1 \<mapsto> Element (ex_img\<lparr>el_attrs :=
              (el_attrs ex_img)(''alt'' \<mapsto> ''a cat'')\<rparr>))\<rparr>,
          calls = [CConsume 7 ''attribute:alt:image'', CToViewElement 7,
            CSetAttribute ''alt'' (JStr ''a cat'') (Some 1)]\<rparr>
   \<and> modelToViewAttributeConverter ''attribute:alt:image''
       (ex_alt_change JNull (JNum 5)) ex_state
   = Inr \<lparr>world = ex_world\<lparr>
            modelConsumable := (modelConsumable ex_world)((7, ''attribute:alt:image'') \<mapsto> False),
            viewDoc := (viewDoc ex_world)(1 \<mapsto> Element (ex_img\<lparr>el_attrs :=
              (el_attrs ex_img)(''alt'' \<mapsto> ''5'')\<rparr>))\<rparr>,
          calls = [CConsume 7 ''attribute:alt:image'', CToViewElement 7,
            CSetAttribute ''alt'' (JNum 5) (Some 1)]\<rparr>"
  using mirror_falsy_coercion [of ex_state "ex_alt_change JNull JUndefined"
      "''attribute:alt:image''" 0 1 ex_img]
    mirror_falsy_coercion [of ex_state "ex_alt_change JNull (JStr ''a cat'')"
      "''attribute:alt:image''" 0 1 ex_img]
    mirror_falsy_coercion [of ex_state "ex_alt_change JNull (JNum 5)"
      "''attribute:alt:image''" 0 1 ex_img]
  by (simp add: ex_defs js_toString_numbers del: js_toString.simps(4))

subsection \<open>Srcset round trip\<close>

text \<open>
  C1. For the model value \<^verbatim>\<open>{data: "a 1x, b 2x", width: "300"}\<close> the srcset converter
  sets \<^verbatim>\<open>srcset="a 1x, b 2x"\<close>, \<^verbatim>\<open>sizes="100vw"\<close> and \<^verbatim>\<open>width="300"\<close> on the inner
  img, and the declared upcast srcset mapping, applied to that img (or to an img that
  carries exactly those three attributes), gives the model attribute \<^verbatim>\<open>srcset\<close> with
  the original value.
\<close>

theorem srcset_round_trip:
  assumes "consumable_test (modelConsumable (world s)) (item d) [evt]"
    and "mapperToView (world s) (item d) = Some el"
    and "getViewImgFromWidget (viewDoc (world s)) el = Some img"
    and "viewDoc (world s) img = Some (Element e)"
    and "el_name e = ''img''"
    and "attributeNewValue d =
           JObj [(''data'', JStr ''a 1x, b 2x''), (''width'', JStr ''300'')]"
  shows "srcsetAttributeConverter evt d s =
           Inr \<lparr>world = (world s)\<lparr>
                  modelConsumable := (modelConsumable (world s))((item d, evt) \<mapsto> False),
                  viewDoc := (viewDoc (world s))(img \<mapsto> Element (e\<lparr>el_attrs :=
                    (el_attrs e)(''srcset'' \<mapsto> ''a 1x, b 2x'',
                      ''sizes'' \<mapsto> ''100vw'', ''width'' \<mapsto> ''300'')\<rparr>))\<rparr>,
                calls = calls s @ [CConsume (item d) evt, CToViewElement (item d),
                  CSetAttribute ''srcset'' (JStr ''a 1x, b 2x'') (Some img),
                  CSetAttribute ''sizes'' (JStr ''100vw'') (Some img),
                  CSetAttribute ''width'' (JStr ''300'') (Some img)]\<rparr>
         \<and> apply_mapping upcastSrcsetMapping
              (e\<lparr>el_attrs := (el_attrs e)(''srcset'' \<mapsto> ''a 1x, b 2x'',
                 ''sizes'' \<mapsto> ''100vw'', ''width'' \<mapsto> ''300'')\<rparr>)
            = Some (''srcset'', attributeNewValue d)
         \<and> apply_mapping upcastSrcsetMapping
              \<lparr>el_name = ''img'',
               el_attrs = [''srcset'' \<mapsto> ''a 1x, b 2x'', ''sizes'' \<mapsto> ''100vw'',
                 ''width'' \<mapsto> ''300''],
               el_children = [], el_classes = []\<rparr>
            = Some (''srcset'', attributeNewValue d)
         \<and> upcastSrcsetMapping \<in> set addUpcastImageConverters"
  using assms
  by (simp add: conv_defs apply_mapping_def upcastSrcsetMapping_def upcastSrcsetValue_def
      hasAttribute_def getAttribute_def addUpcastImageConverters_def)

theorem srcset_round_trip_witness:
  "srcsetAttributeConverter ''attribute:srcset:image''
     (ex_srcset_change JNull (JObj [(''data'', JStr ''a 1x, b 2x''), (''width'', JStr ''300'')]))
     ex_state
   = Inr \<lparr>world = ex_world\<lparr>
            modelConsumable :=
              (modelConsumable ex_world)((7, ''attribute:srcset:image'') \<mapsto> False),
            viewDoc := (viewDoc ex_world)(1 \<mapsto> Element (ex_img\<lparr>el_attrs :=
              (el_attrs ex_img)(''srcset'' \<mapsto> ''a 1x, b 2x'',
                ''sizes'' \<mapsto> ''100vw'', ''width'' \<mapsto> ''300'')\<rparr>))\<rparr>,
          calls = [CConsume 7 ''attribute:srcset:image'', CToViewElement 7,
            CSetAttribute ''srcset'' (JStr ''a 1x, b 2x'') (Some 1),
            CSetAttribute ''sizes'' (JStr ''100vw'') (Some 1),
            CSetAttribute ''width'' (JStr ''300'') (Some 1)]\<rparr>
   \<and> apply_mapping upcastSrcsetMapping
        (ex_img\<lparr>el_attrs := (el_attrs ex_img)(''srcset'' \<mapsto> ''a 1x, b 2x'',
           ''sizes'' \<mapsto> ''100vw'', ''width'' \<mapsto> ''300'')\<rparr>)
      = Some (''srcset'', JObj [(''data'', JStr ''a 1x, b 2x''), (''width'', JStr ''300'')])"
  using srcset_round_trip [of ex_state
      "ex_srcset_change JNull (JObj [(''data'', JStr ''a 1x, b 2x''), (''width'', JStr ''300'')])"
      "''attribute:srcset:image''" 0 1 ex_img]
  by (simp add: ex_defs)

subsection \<open>Element converter: declining\<close>

text \<open>
  C2. When the wrapper fails the name-and-class test, or no inner img is found, or the
  img has no \<^verbatim>\<open>src\<close>, or the name of the img is already consumed, the element converter
  returns with the event data, both consumables, both trees and the mapping as they
  were; the only calls it has made are consumable tests.
\<close>

theorem figure_guard_declines:
  assumes "\<not> consumable_test (viewConsumable (world s)) (viewItem d) figure_features
           \<or> getViewImgFromWidget (viewDoc (world s)) (viewItem d) = None
           \<or> (\<exists>img. getViewImgFromWidget (viewDoc (world s)) (viewItem d) = Some img
                \<and> (\<not> node_hasAttribute (viewDoc (world s)) img ''src''
                   \<or> \<not> consumable_test (viewConsumable (world s)) img [Name]))"
  shows "fst (viewFigureToModel api d s) = d
         \<and> world (snd (viewFigureToModel api d s)) = world s
         \<and> take (length (calls s)) (calls (snd (viewFigureToModel api d s))) = calls s
         \<and> list_all is_test (drop (length (calls s)) (calls (snd (viewFigureToModel api d s))))"
  using assms
  by (auto simp: viewFigureToModel_def called_def Let_def split: option.splits)

theorem figure_guard_declines_witness:
  "getViewImgFromWidget (viewDoc (world ex_state_no_src)) (viewItem ex_figure_event) = Some 1
   \<and> \<not> node_hasAttribute (viewDoc (world ex_state_no_src)) 1 ''src''
   \<and> fst (viewFigureToModel ex_api ex_figure_event ex_state_no_src) = ex_figure_event
   \<and> world (snd (viewFigureToModel ex_api ex_figure_event ex_state_no_src))
      = world ex_state_no_src
   \<and> list_all is_test (calls (snd (viewFigureToModel ex_api ex_figure_event ex_state_no_src)))"
proof -
  have img: "getViewImgFromWidget (viewDoc (world ex_state_no_src)) (viewItem ex_figure_event)
      = Some 1"
    by (simp add: ex_defs)
  have no_src: "\<not> node_hasAttribute (viewDoc (world ex_state_no_src)) 1 ''src''"
    by (simp add: ex_defs node_hasAttribute_def hasAttribute_def)
  have no_calls: "calls ex_state_no_src = []"
    by (simp add: ex_state_no_src_def)
  from img no_src
  have "fst (viewFigureToModel ex_api ex_figure_event ex_state_no_src) = ex_figure_event
     \<and> world (snd (viewFigureToModel ex_api ex_figure_event ex_state_no_src))
        = world ex_state_no_src
     \<and> take (length (calls ex_state_no_src))
          (calls (snd (viewFigureToModel ex_api ex_figure_event ex_state_no_src)))
        = calls ex_state_no_src
     \<and> list_all is_test (drop (length (calls ex_state_no_src))
          (calls (snd (viewFigureToModel ex_api ex_figure_event ex_state_no_src))))"
    by (intro figure_guard_declines) simp
  with img no_src no_calls show ?thesis by simp
qed

text \<open>
  C6. When the guards pass and the delegated item conversion produces no model node,
  the element converter returns right after it: the event data is unchanged (no result
  is reported), the children are not converted, and the state is the one the delegate
  left. The converter itself consumes nothing, so the wrapper's name-and-class test
  answers as it did after the delegate.
\<close>

theorem figure_delegate_declined:
  assumes "consumable_test (viewConsumable (world s)) (viewItem d) figure_features"
    and "getViewImgFromWidget (viewDoc (world s)) (viewItem d) = Some img"
    and "node_hasAttribute (viewDoc (world s)) img ''src''"
    and "consumable_test (viewConsumable (world s)) img [Name]"
    and "convertItem api img (modelCursor d) (world s) = (res, w')"
    and "first (resultRange res) = None"
  shows "viewFigureToModel api d s =
           (d, \<lparr>world = w',
                calls = calls s @ [CTest (viewItem d) figure_features, CTest img [Name],
                  CConvertItem img (modelCursor d)]\<rparr>)
         \<and> consumable_test (viewConsumable (world (snd (viewFigureToModel api d s))))
              (viewItem d) figure_features
            = consumable_test (viewConsumable w') (viewItem d) figure_features"
  using assms by (simp add: viewFigureToModel_def called_def Let_def)

theorem figure_delegate_declined_witness:
  "viewFigureToModel ex_api_declining ex_figure_event ex_state
   = (ex_figure_event,
      \<lparr>world = ex_world,
       calls = [CTest 0 figure_features, CTest 1 [Name], CConvertItem 1 [0]]\<rparr>)
   \<and> consumable_test (viewConsumable
        (world (snd (viewFigureToModel ex_api_declining ex_figure_event ex_state))))
        0 figure_features"
  using figure_delegate_declined [of ex_state ex_figure_event 1 ex_api_declining
      "\<lparr>resultRange = [], resultCursor = [0]\<rparr>" ex_world]
  by (simp add: ex_defs node_hasAttribute_def hasAttribute_def figure_features_def first_def)

subsection \<open>The shape of every run of the attribute converters\<close>

lemma consume_event_fails:
  "\<not> consumable_test (modelConsumable (world s)) (item d) [evt] \<Longrightarrow>
     consume_event evt d s = (False, called (CConsume (item d) evt) s)"
  by (simp add: consume_event_def consumable_consume_def called_def)

lemma consume_event_succeeds:
  "consumable_test (modelConsumable (world s)) (item d) [evt] \<Longrightarrow>
     consume_event evt d s =
       (True, \<lparr>world = (world s)\<lparr>modelConsumable :=
                  (modelConsumable (world s))((item d, evt) \<mapsto> False)\<rparr>,
               calls = calls s @ [CConsume (item d) evt]\<rparr>)"
  by (simp add: consume_event_def consumable_consume_def called_def mark_consumed_def)

lemma srcset_declines:
  "\<not> consumable_test (modelConsumable (world s)) (item d) [evt] \<Longrightarrow>
     srcsetAttributeConverter evt d s = Inr (called (CConsume (item d) evt) s)"
  by (simp add: srcsetAttributeConverter_def consume_event_fails)

lemma mirror_declines:
  "\<not> consumable_test (modelConsumable (world s)) (item d) [evt] \<Longrightarrow>
     modelToViewAttributeConverter evt d s = Inr (called (CConsume (item d) evt) s)"
  by (simp add: modelToViewAttributeConverter_def consume_event_fails)

text \<open>
  After a successful consume and the mapper lookup, all that the srcset converter and
  the mirror do is writer calls, each of which leaves the consumables alone.
\<close>

lemma final_state_simps:
  "final_state (Inr s) = s"
  "final_state (Inl (e, s)) = s"
  by (simp_all add: final_state_def)

lemma extends_by_writes_refl: "extends_by_writes s s"
  by (simp add: extends_by_writes_def)

lemma extends_by_writes_trans:
  assumes "extends_by_writes s s'" and "extends_by_writes s' s''"
  shows "extends_by_writes s s''"
proof -
  from assms(1) obtain ws where ws: "calls s' = calls s @ ws" "list_all is_write ws"
    unfolding extends_by_writes_def by (metis append_take_drop_id)
  from assms(2) obtain ws' where ws': "calls s'' = calls s' @ ws'" "list_all is_write ws'"
    unfolding extends_by_writes_def by (metis append_take_drop_id)
  from ws ws' assms show ?thesis
    by (simp add: extends_by_writes_def)
qed

lemma write_element_extends:
  "extends_by_writes s (final_state (write_element f target s))"
  by (auto simp: write_element_def final_state_simps extends_by_writes_def
      split: option.splits view_node.splits)

lemma writer_setAttribute_extends:
  "extends_by_writes s (final_state (writer_setAttribute k v target s))"
proof -
  have "extends_by_writes s (called (CSetAttribute k v target) s)"
    by (simp add: extends_by_writes_def called_def)
  then show ?thesis
    unfolding writer_setAttribute_def
    by (rule extends_by_writes_trans) (rule write_element_extends)
qed

lemma writer_removeAttribute_extends:
  "extends_by_writes s (final_state (writer_removeAttribute k target s))"
proof -
  have "extends_by_writes s (called (CRemoveAttribute k target) s)"
    by (simp add: extends_by_writes_def called_def)
  then show ?thesis
    unfolding writer_removeAttribute_def
    by (rule extends_by_writes_trans) (rule write_element_extends)
qed

lemma and_then_extends:
  assumes "extends_by_writes s (final_state r)"
    and "\<And>s'. extends_by_writes s' (final_state (f s'))"
  shows "extends_by_writes s (final_state (and_then r f))"
proof (cases r)
  case (Inl e)
  with assms(1) show ?thesis by (simp add: and_then_def)
next
  case (Inr s')
  with assms(1) have "extends_by_writes s s'" by (simp add: final_state_simps)
  moreover have "extends_by_writes s' (final_state (f s'))" by (rule assms(2))
  ultimately have "extends_by_writes s (final_state (f s'))"
    by (rule extends_by_writes_trans)
  with Inr show ?thesis by (simp add: and_then_def)
qed

lemma read_prop_extends:
  assumes "\<And>x. extends_by_writes s (final_state (f x))"
  shows "extends_by_writes s (final_state (read_prop v k s f))"
  using assms
  by (cases "getProp v k") (simp_all add: read_prop_def final_state_simps extends_by_writes_refl)

lemma after_consume_frame:
  "viewDoc (world (after_consume evt d s)) = viewDoc (world s)"
  "mapperToView (world (after_consume evt d s)) = mapperToView (world s)"
  by (simp_all add: after_consume_def)

lemma consumed_then_looked_up:
  "called (CToViewElement (item d))
     \<lparr>world = (world s)\<lparr>modelConsumable :=
                 (modelConsumable (world s))((item d, evt) \<mapsto> False)\<rparr>,
      calls = calls s @ [CConsume (item d) evt]\<rparr>
   = after_consume evt d s"
  by (simp add: called_def after_consume_def)

lemma srcset_unfold:
  assumes "consumable_test (modelConsumable (world s)) (item d) [evt]"
    and "mapperToView (world s) (item d) = Some el"
  shows "srcsetAttributeConverter evt d s =
     (if attributeNewValue d = JNull then
        read_prop (attributeOldValue d) ''data'' (after_consume evt d s) (\<lambda>dv.
          if truthy dv then
            and_then
              (and_then
                 (writer_removeAttribute ''srcset''
                    (getViewImgFromWidget (viewDoc (world s)) el) (after_consume evt d s))
                 (writer_removeAttribute ''sizes'' (getViewImgFromWidget (viewDoc (world s)) el)))
              (\<lambda>s'. read_prop (attributeOldValue d) ''width'' s' (\<lambda>w.
                 if truthy w
                 then writer_removeAttribute ''width''
                        (getViewImgFromWidget (viewDoc (world s)) el) s'
                 else Inr s'))
          else Inr (after_consume evt d s))
      else
        read_prop (attributeNewValue d) ''data'' (after_consume evt d s) (\<lambda>dv.
          if truthy dv then
            and_then
              (and_then
                 (writer_setAttribute ''srcset'' dv
                    (getViewImgFromWidget (viewDoc (world s)) el) (after_consume evt d s))
                 (writer_setAttribute ''sizes'' (JStr ''100vw'')
                    (getViewImgFromWidget (viewDoc (world s)) el)))
              (\<lambda>s'. read_prop (attributeNewValue d) ''width'' s' (\<lambda>w.
                 if truthy w
                 then writer_setAttribute ''width'' w
                        (getViewImgFromWidget (viewDoc (world s)) el) s'
                 else Inr s'))
          else Inr (after_consume evt d s)))"
  using assms
  by (simp add: srcsetAttributeConverter_def consume_event_succeeds consumed_then_looked_up
      after_consume_frame Let_def cong: if_cong)

lemma srcset_extends:
  assumes "consumable_test (modelConsumable (world s)) (item d) [evt]"
  shows "extends_by_writes (after_consume evt d s)
           (final_state (srcsetAttributeConverter evt d s))"
proof (cases "mapperToView (world s) (item d)")
  case None
  with assms show ?thesis
    by (simp add: srcsetAttributeConverter_def consume_event_succeeds consumed_then_looked_up
        after_consume_frame final_state_simps extends_by_writes_refl)
next
  case (Some el)
  have set_width: "extends_by_writes s' (final_state (read_prop v ''width'' s' (\<lambda>w.
      if truthy w then writer_setAttribute ''width'' w img s' else Inr s')))" for s' v img
    by (rule read_prop_extends)
      (simp add: writer_setAttribute_extends final_state_simps extends_by_writes_refl)
  have remove_width: "extends_by_writes s' (final_state (read_prop v ''width'' s' (\<lambda>w.
      if truthy w then writer_removeAttribute ''width'' img s' else Inr s')))" for s' v img
    by (rule read_prop_extends)
      (simp add: writer_removeAttribute_extends final_state_simps extends_by_writes_refl)
  show ?thesis
  proof (cases "attributeNewValue d = JNull")
    case True
    show ?thesis
      unfolding srcset_unfold [OF assms Some] using True
      by (auto intro!: read_prop_extends and_then_extends writer_removeAttribute_extends
          remove_width simp: final_state_simps extends_by_writes_refl)
  next
    case False
    show ?thesis
      unfolding srcset_unfold [OF assms Some] using False
      by (auto intro!: read_prop_extends and_then_extends writer_setAttribute_extends
          set_width simp: final_state_simps extends_by_writes_refl)
  qed
qed

lemma mirror_extends:
  assumes "consumable_test (modelConsumable (world s)) (item d) [evt]"
  shows "extends_by_writes (after_consume evt d s)
           (final_state (modelToViewAttributeConverter evt d s))"
proof (cases "mapperToView (world s) (item d)")
  case None
  with assms show ?thesis
    by (simp add: modelToViewAttributeConverter_def consume_event_succeeds
        consumed_then_looked_up after_consume_frame final_state_simps extends_by_writes_refl)
next
  case (Some el)
  have "modelToViewAttributeConverter evt d s =
      writer_setAttribute (attributeKey d) (js_or (attributeNewValue d) (JStr []))
        (getViewImgFromWidget (viewDoc (world s)) el) (after_consume evt d s)"
    using assms Some
    by (simp add: modelToViewAttributeConverter_def consume_event_succeeds
        consumed_then_looked_up after_consume_frame Let_def)
  then show ?thesis
    by (simp add: writer_setAttribute_extends)
qed

lemma extends_consumed:
  assumes "extends_by_writes (after_consume evt d s) s'"
  shows "modelConsumable (world s') (item d, evt) = Some False"
    and "take (Suc (length (calls s))) (calls s') = calls s @ [CConsume (item d) evt]"
    and "take (length (calls s) + 2) (calls s')
           = calls s @ [CConsume (item d) evt, CToViewElement (item d)]"
    and "list_all is_write (drop (length (calls s) + 2) (calls s'))"
    and "\<not> list_ex is_test (drop (length (calls s)) (calls s'))"
proof -
  from assms obtain ws where
    ws: "calls s' = calls s @ [CConsume (item d) evt, CToViewElement (item d)] @ ws"
      "list_all is_write ws"
    unfolding extends_by_writes_def after_consume_def
    by (metis append_take_drop_id append_assoc conv_state.select_convs(2))
  from assms show "modelConsumable (world s') (item d, evt) = Some False"
    by (simp add: extends_by_writes_def after_consume_def)
  from ws show "take (Suc (length (calls s))) (calls s') = calls s @ [CConsume (item d) evt]"
    by simp
  from ws show "take (length (calls s) + 2) (calls s')
      = calls s @ [CConsume (item d) evt, CToViewElement (item d)]"
    by simp
  from ws show "list_all is_write (drop (length (calls s) + 2) (calls s'))"
    by simp
  have "\<not> is_test c" if "is_write c" for c
    using that by (cases c) simp_all
  with ws(2) have "\<not> list_ex is_test ws"
    by (auto simp: list_all_iff list_ex_iff)
  with ws(1) show "\<not> list_ex is_test (drop (length (calls s)) (calls s'))"
    by simp
qed

subsection \<open>Srcset converter: consumption comes first\<close>

text \<open>
  C9. With the event still available, the srcset converter consumes it before it looks
  at the value: consume is its first call, and at the end of every run, whatever the
  old and new values, the event feature of the item is consumed. On the two branches
  that write nothing (a new value whose \<^verbatim>\<open>data\<close> is absent or falsy, a removal
  whose old value's \<^verbatim>\<open>data\<close> is absent or falsy) the view is as it was and the
  feature is consumed all the same. A later handler of this file for the same item and
  event then fails its consume and returns, having written nothing.
\<close>

theorem srcset_consumes_first:
  assumes "consumable_test (modelConsumable (world s)) (item d) [evt]"
  shows "modelConsumable (world (final_state (srcsetAttributeConverter evt d s))) (item d, evt)
           = Some False
         \<and> take (Suc (length (calls s))) (calls (final_state (srcsetAttributeConverter evt d s)))
           = calls s @ [CConsume (item d) evt]
         \<and> (mapperToView (world s) (item d) = Some el
            \<and> (attributeNewValue d \<noteq> JNull
                 \<and> getProp (attributeNewValue d) ''data'' = Inr dv \<and> \<not> truthy dv
               \<or> attributeNewValue d = JNull
                 \<and> getProp (attributeOldValue d) ''data'' = Inr dv \<and> \<not> truthy dv) \<longrightarrow>
            srcsetAttributeConverter evt d s =
              Inr \<lparr>world = (world s)\<lparr>modelConsumable :=
                     (modelConsumable (world s))((item d, evt) \<mapsto> False)\<rparr>,
                   calls = calls s @ [CConsume (item d) evt, CToViewElement (item d)]\<rparr>)
         \<and> (item d' = item d \<longrightarrow>
            srcsetAttributeConverter evt d' (final_state (srcsetAttributeConverter evt d s))
              = Inr (called (CConsume (item d) evt)
                      (final_state (srcsetAttributeConverter evt d s)))
            \<and> modelToViewAttributeConverter evt d'
                (final_state (srcsetAttributeConverter evt d s))
              = Inr (called (CConsume (item d) evt)
                      (final_state (srcsetAttributeConverter evt d s))))"
proof -
  let ?s' = "final_state (srcsetAttributeConverter evt d s)"
  note ext = srcset_extends [OF assms]
  have consumed: "modelConsumable (world ?s') (item d, evt) = Some False"
    by (rule extends_consumed(1) [OF ext])
  have first_call: "take (Suc (length (calls s))) (calls ?s') = calls s @ [CConsume (item d) evt]"
    by (rule extends_consumed(2) [OF ext])
  have nothing_written: "srcsetAttributeConverter evt d s = Inr (after_consume evt d s)"
    if "mapperToView (world s) (item d) = Some el"
      and "attributeNewValue d \<noteq> JNull
             \<and> getProp (attributeNewValue d) ''data'' = Inr dv \<and> \<not> truthy dv
           \<or> attributeNewValue d = JNull
             \<and> getProp (attributeOldValue d) ''data'' = Inr dv \<and> \<not> truthy dv"
    using that(2) by (auto simp: srcset_unfold [OF assms that(1)] read_prop_def)
  have later: "\<not> consumable_test (modelConsumable (world ?s')) (item d') [evt]"
    if "item d' = item d"
    using consumed that by (simp add: consumable_test_def)
  show ?thesis
    using consumed first_call nothing_written
      srcset_declines [OF later] mirror_declines [OF later]
    by (auto simp: after_consume_def)
qed

theorem srcset_consumes_first_witness:
  "consumable_test (modelConsumable (world ex_state)) 7 [''attribute:srcset:image'']
   \<and> getProp (JObj [(''width'', JStr ''300'')]) ''data'' = Inr JUndefined
   \<and> srcsetAttributeConverter ''attribute:srcset:image''
        (ex_srcset_change JNull (JObj [(''width'', JStr ''300'')])) ex_state
      = Inr \<lparr>world = ex_world\<lparr>modelConsumable :=
                (modelConsumable ex_world)((7, ''attribute:srcset:image'') \<mapsto> False)\<rparr>,
             calls = [CConsume 7 ''attribute:srcset:image'', CToViewElement 7]\<rparr>
   \<and> modelToViewAttributeConverter ''attribute:srcset:image''
        (ex_srcset_change JNull (JStr ''late''))
        (final_state (srcsetAttributeConverter ''attribute:srcset:image''
          (ex_srcset_change JNull (JObj [(''width'', JStr ''300'')])) ex_state))
      = Inr \<lparr>world = ex_world\<lparr>modelConsumable :=
                (modelConsumable ex_world)((7, ''attribute:srcset:image'') \<mapsto> False)\<rparr>,
             calls = [CConsume 7 ''attribute:srcset:image'', CToViewElement 7,
               CConsume 7 ''attribute:srcset:image'']\<rparr>"
proof -
  let ?d = "ex_srcset_change JNull (JObj [(''width'', JStr ''300'')])"
  let ?d' = "ex_srcset_change JNull (JStr ''late'')"
  let ?evt = "''attribute:srcset:image''"
  let ?s' = "\<lparr>world = ex_world\<lparr>modelConsumable :=
                (modelConsumable ex_world)((7, ?evt) \<mapsto> False)\<rparr>,
             calls = [CConsume 7 ?evt, CToViewElement 7]\<rparr>"
  have available: "consumable_test (modelConsumable (world ex_state)) (item ?d) [?evt]"
    by (simp add: ex_defs)
  have same_item: "item ?d' = item ?d"
    by (simp add: ex_srcset_change_def)
  have no_data: "getProp (JObj [(''width'', JStr ''300'')]) ''data'' = Inr JUndefined"
    by simp
  have run: "srcsetAttributeConverter ?evt ?d ex_state = Inr ?s'"
    by (simp add: conv_defs ex_defs)
  from srcset_consumes_first [OF available, of 0 JUndefined ?d'] same_item
  have "modelToViewAttributeConverter ?evt ?d' (final_state (srcsetAttributeConverter ?evt ?d ex_state))
      = Inr (called (CConsume (item ?d) ?evt)
               (final_state (srcsetAttributeConverter ?evt ?d ex_state)))"
    by blast
  then have later: "modelToViewAttributeConverter ?evt ?d' ?s'
      = Inr (called (CConsume (item ?d) ?evt) ?s')"
    unfolding run final_state_simps .
  have "called (CConsume (item ?d) ?evt) ?s'
      = \<lparr>world = ex_world\<lparr>modelConsumable :=
                (modelConsumable ex_world)((7, ?evt) \<mapsto> False)\<rparr>,
         calls = [CConsume 7 ?evt, CToViewElement 7, CConsume 7 ?evt]\<rparr>"
    by (simp add: called_def ex_srcset_change_def)
  with later available no_data run show ?thesis
    by (simp add: final_state_simps ex_srcset_change_def)
qed

subsection \<open>Order of the consumable calls\<close>

lemma figure_calls:
  "take (Suc (length (calls s))) (calls (snd (viewFigureToModel api u s)))
     = calls s @ [CTest (viewItem u) figure_features]
   \<and> list_all (\<lambda>c. is_test c \<or> is_delegate c)
       (drop (length (calls s)) (calls (snd (viewFigureToModel api u s))))"
  by (auto simp: viewFigureToModel_def called_def Let_def split: option.splits prod.splits)

text \<open>
  C7 as stated fails: the attribute converters never call the consumable test, and a
  consume is not always followed by a mutation. Here the srcset converter runs on the
  new value \<^verbatim>\<open>{width: "300"}\<close>, starting with no call made: its first call is the
  consume, no test is among its calls, the event is consumed at the end and the view
  is as it was.
\<close>

theorem lock_discipline_counterexample:
  "calls ex_state = []
   \<and> calls (final_state (srcsetAttributeConverter ''attribute:srcset:image''
        (ex_srcset_change JNull (JObj [(''width'', JStr ''300'')])) ex_state))
      = [CConsume 7 ''attribute:srcset:image'', CToViewElement 7]
   \<and> \<not> list_ex is_test (calls (final_state (srcsetAttributeConverter
        ''attribute:srcset:image''
        (ex_srcset_change JNull (JObj [(''width'', JStr ''300'')])) ex_state)))
   \<and> modelConsumable (world (final_state (srcsetAttributeConverter
        ''attribute:srcset:image''
        (ex_srcset_change JNull (JObj [(''width'', JStr ''300'')])) ex_state)))
        (7, ''attribute:srcset:image'') = Some False
   \<and> viewDoc (world (final_state (srcsetAttributeConverter ''attribute:srcset:image''
        (ex_srcset_change JNull (JObj [(''width'', JStr ''300'')])) ex_state)))
      = viewDoc (world ex_state)"
  by (simp add: conv_defs ex_defs final_state_simps)

text \<open>
  C7, amended. Every handler starts with a call on the consumable. The two attribute
  converters call consume first, with no test before it (they never call test). When
  the consume fails they return with nothing else called and nothing changed. When it
  succeeds, their next call is the mapper lookup, and every call after that is a
  writer call: every writer call comes after the successful consume and the lookup.
  The element converter calls the test of the wrapper's name and class first, and all
  its calls are tests and delegations: it never consumes and never writes. Nothing is
  said about a mutation following each consume.
\<close>

theorem handlers_gate_first:
  "take (Suc (length (calls s))) (calls (final_state (srcsetAttributeConverter evt d s)))
     = calls s @ [CConsume (item d) evt]
   \<and> take (Suc (length (calls s))) (calls (final_state (modelToViewAttributeConverter evt d s)))
     = calls s @ [CConsume (item d) evt]
   \<and> \<not> list_ex is_test
       (drop (length (calls s)) (calls (final_state (srcsetAttributeConverter evt d s))))
   \<and> \<not> list_ex is_test
       (drop (length (calls s)) (calls (final_state (modelToViewAttributeConverter evt d s))))
   \<and> (\<not> consumable_test (modelConsumable (world s)) (item d) [evt] \<longrightarrow>
        srcsetAttributeConverter evt d s = Inr (called (CConsume (item d) evt) s)
        \<and> modelToViewAttributeConverter evt d s = Inr (called (CConsume (item d) evt) s))
   \<and> (consumable_test (modelConsumable (world s)) (item d) [evt] \<longrightarrow>
        take (length (calls s) + 2) (calls (final_state (srcsetAttributeConverter evt d s)))
          = calls s @ [CConsume (item d) evt, CToViewElement (item d)]
        \<and> take (length (calls s) + 2)
            (calls (final_state (modelToViewAttributeConverter evt d s)))
          = calls s @ [CConsume (item d) evt, CToViewElement (item d)])
   \<and> list_all is_write
       (drop (length (calls s) + 2) (calls (final_state (srcsetAttributeConverter evt d s))))
   \<and> list_all is_write
       (drop (length (calls s) + 2)
          (calls (final_state (modelToViewAttributeConverter evt d s))))
   \<and> take (Suc (length (calls s))) (calls (snd (viewFigureToModel api u s)))
     = calls s @ [CTest (viewItem u) figure_features]
   \<and> list_all (\<lambda>c. is_test c \<or> is_delegate c)
       (drop (length (calls s)) (calls (snd (viewFigureToModel api u s))))"
proof (cases "consumable_test (modelConsumable (world s)) (item d) [evt]")
  case True
  note a = extends_consumed [OF srcset_extends [OF True]]
  note b = extends_consumed [OF mirror_extends [OF True]]
  from True a(2,3,4,5) b(2,3,4,5) figure_calls [of s api u] show ?thesis
    by simp
next
  case False
  from False srcset_declines [OF False] mirror_declines [OF False] figure_calls [of s api u]
  show ?thesis
    by (simp add: final_state_simps called_def)
qed

theorem handlers_gate_first_witness:
  "\<not> consumable_test (modelConsumable (world ex_state_consumed)) 7 [''attribute:srcset:image'']
   \<and> srcsetAttributeConverter ''attribute:srcset:image''
        (ex_srcset_change JNull (JObj [(''data'', JStr ''x 1x'')])) ex_state_consumed
      = Inr \<lparr>world = world ex_state_consumed,
             calls = [CConsume 7 ''attribute:srcset:image'']\<rparr>
   \<and> modelToViewAttributeConverter ''attribute:srcset:image''
        (ex_srcset_change JNull (JObj [(''data'', JStr ''x 1x'')])) ex_state_consumed
      = Inr \<lparr>world = world ex_state_consumed,
             calls = [CConsume 7 ''attribute:srcset:image'']\<rparr>
   \<and> consumable_test (modelConsumable (world ex_state)) 7 [''attribute:srcset:image'']
   \<and> take 2 (calls (final_state (srcsetAttributeConverter ''attribute:srcset:image''
        (ex_srcset_change JNull (JObj [(''data'', JStr ''x 1x'')])) ex_state)))
      = [CConsume 7 ''attribute:srcset:image'', CToViewElement 7]
   \<and> list_all is_write (drop 2 (calls (final_state (srcsetAttributeConverter
        ''attribute:srcset:image''
        (ex_srcset_change JNull (JObj [(''data'', JStr ''x 1x'')])) ex_state))))
   \<and> drop 2 (calls (final_state (srcsetAttributeConverter ''attribute:srcset:image''
        (ex_srcset_change JNull (JObj [(''data'', JStr ''x 1x'')])) ex_state)))
      = [CSetAttribute ''srcset'' (JStr ''x 1x'') (Some 1),
         CSetAttribute ''sizes'' (JStr ''100vw'') (Some 1)]"
proof -
  let ?d = "ex_srcset_change JNull (JObj [(''data'', JStr ''x 1x'')])"
  let ?evt = "''attribute:srcset:image''"
  have item: "item ?d = 7"
    by (simp add: ex_srcset_change_def)
  have gone: "\<not> consumable_test (modelConsumable (world ex_state_consumed)) (item ?d) [?evt]"
    by (simp add: ex_defs)
  have there: "consumable_test (modelConsumable (world ex_state)) (item ?d) [?evt]"
    by (simp add: ex_defs)
  have no_calls: "calls ex_state = []" "calls ex_state_consumed = []"
    by (simp_all add: ex_state_def ex_state_consumed_def)
  from handlers_gate_first [of ex_state_consumed ?evt ?d ex_api ex_figure_event] gone
  have "srcsetAttributeConverter ?evt ?d ex_state_consumed
        = Inr (called (CConsume (item ?d) ?evt) ex_state_consumed)
      \<and> modelToViewAttributeConverter ?evt ?d ex_state_consumed
        = Inr (called (CConsume (item ?d) ?evt) ex_state_consumed)"
    by blast
  moreover have "called (CConsume (item ?d) ?evt) ex_state_consumed
      = \<lparr>world = world ex_state_consumed, calls = [CConsume 7 ?evt]\<rparr>"
    by (simp add: called_def ex_state_consumed_def ex_srcset_change_def)
  ultimately have declined:
    "srcsetAttributeConverter ?evt ?d ex_state_consumed
        = Inr \<lparr>world = world ex_state_consumed, calls = [CConsume 7 ?evt]\<rparr>"
    "modelToViewAttributeConverter ?evt ?d ex_state_consumed
        = Inr \<lparr>world = world ex_state_consumed, calls = [CConsume 7 ?evt]\<rparr>"
    by simp_all
  from handlers_gate_first [of ex_state ?evt ?d ex_api ex_figure_event] there
  have "take (length (calls ex_state) + 2)
          (calls (final_state (srcsetAttributeConverter ?evt ?d ex_state)))
        = calls ex_state @ [CConsume (item ?d) ?evt, CToViewElement (item ?d)]
      \<and> list_all is_write (drop (length (calls ex_state) + 2)
          (calls (final_state (srcsetAttributeConverter ?evt ?d ex_state))))"
    by blast
  then have acted:
    "take 2 (calls (final_state (srcsetAttributeConverter ?evt ?d ex_state)))
        = [CConsume 7 ?evt, CToViewElement 7]"
    "list_all is_write (drop 2 (calls (final_state (srcsetAttributeConverter ?evt ?d ex_state))))"
    by (simp_all add: no_calls item numeral_2_eq_2)
  have writes: "drop 2 (calls (final_state (srcsetAttributeConverter ?evt ?d ex_state)))
      = [CSetAttribute ''srcset'' (JStr ''x 1x'') (Some 1),
         CSetAttribute ''sizes'' (JStr ''100vw'') (Some 1)]"
    by (simp add: conv_defs ex_defs final_state_simps)
  from gone there declined acted writes show ?thesis
    by (simp add: item)
qed

end
